theory Spec2Isabelle
  imports Complex_Main "HOL-Library.Multiset"
begin

section \<open>Entities: sphinxsys_entity.h\<close>

text \<open>
  A C++ pointer is either \<open>nullptr\<close> or the address of an object. Program exit through
  \<open>exit(1)\<close> is the left summand of a result; it carries the line printed to the
  standard output just before (the following line with the file name and line number of
  the translation unit is not part of the model).
\<close>

datatype ptr = nullptr | Address nat

datatype abort = Exit1 string

text \<open>
  A member \<open>x_\<close> of a C++ class is the field \<open>x'\<close> of the record here: an Isabelle
  name cannot end with an underscore.
\<close>

record BaseEntity =
  name' :: string


record ConstantEntity = BaseEntity +
  value' :: ptr
  device_value' :: ptr

text \<open>
  The constructor stores \<open>new DataType(value)\<close>, a fresh object whose address is the
  parameter \<open>a\<close> here, and leaves the device pointer null.
\<close>

definition ConstantEntity_new :: "string \<Rightarrow> nat \<Rightarrow> ConstantEntity" where
  "ConstantEntity_new nm a = \<lparr>name' = nm, value' = Address a, device_value' = nullptr\<rparr>"

definition existDeviceData :: "ConstantEntity \<Rightarrow> bool" where
  "existDeviceData e = (device_value' e \<noteq> nullptr)"

definition setDeviceData :: "ConstantEntity \<Rightarrow> ptr \<Rightarrow> ConstantEntity" where
  "setDeviceData e data = e\<lparr>device_value' := data\<rparr>"

definition not_allocated_message :: "string \<Rightarrow> string" where
  "not_allocated_message nm =
     [CHR 0x0A] @ '' Error: the constant entity '' @ [CHR 0x27] @ nm @ [CHR 0x27]
       @ '' not allocated on device yet!''"

definition DeviceDataAddress :: "ConstantEntity \<Rightarrow> abort + ptr" where
  "DeviceDataAddress e =
     (if \<not> existDeviceData e then Inl (Exit1 (not_allocated_message (name' e)))
      else Inr (device_value' e))"

text \<open>
  \<open>DataAddress\<close> has three overloads: without a policy, with any execution policy (a
  template, which returns the host address), and with \<open>ParallelDevicePolicy\<close>, which is
  the more specialised overload and asks for the device address.
\<close>

datatype ExecutionPolicy = ParallelDevicePolicy | OtherPolicy

definition DataAddress :: "ConstantEntity \<Rightarrow> abort + ptr" where
  "DataAddress e = Inr (value' e)"

fun DataAddress_policy :: "ExecutionPolicy \<Rightarrow> ConstantEntity \<Rightarrow> abort + ptr" where
  "DataAddress_policy ParallelDevicePolicy e = DeviceDataAddress e"
| "DataAddress_policy OtherPolicy e = DataAddress e"









section \<open>Level set: level_set.h\<close>

text \<open>
  The header declares the sweep objects a \<open>LevelSet\<close> owns. Their classes, without
  \<open>FinishDataPackages\<close>, are the seven sweeps the spec numbers.
\<close>

datatype sweep =
    InitializeDataInACell
  | UpdateLevelSetGradient
  | UpdateKernelIntegrals
  | DiffuseLevelSetSign
  | ReinitializeLevelSet
  | MarkNearInterface
  | RedistanceInterface

text \<open>
  Modelled from the spec: the bodies of \<open>LevelSet::cleanInterface\<close> and
  \<open>LevelSet::correctTopology\<close> are missing (the header only declares them). The spec
  gives them as schedules of numbered sweeps, 5, 4, 2, 7 and 3, 2, 4, 2, 5, 6, 7, with
  the parameter handed to every sweep. What a sweep does to the mesh data is the
  parameter \<open>exec\<close>.
\<close>

definition run_schedule :: "(sweep \<Rightarrow> real \<Rightarrow> 'm \<Rightarrow> 'm) \<Rightarrow> sweep list \<Rightarrow> real \<Rightarrow> 'm \<Rightarrow> 'm" where
  "run_schedule exec sweeps small_shift_factor mesh =
     foldl (\<lambda>m s. exec s small_shift_factor m) mesh sweeps"

definition cleanInterface :: "(sweep \<Rightarrow> real \<Rightarrow> 'm \<Rightarrow> 'm) \<Rightarrow> real \<Rightarrow> 'm \<Rightarrow> 'm" where
  "cleanInterface exec small_shift_factor =
     run_schedule exec
       [MarkNearInterface, ReinitializeLevelSet, UpdateLevelSetGradient, UpdateKernelIntegrals]
       small_shift_factor"

definition correctTopology :: "(sweep \<Rightarrow> real \<Rightarrow> 'm \<Rightarrow> 'm) \<Rightarrow> real \<Rightarrow> 'm \<Rightarrow> 'm" where
  "correctTopology exec small_shift_factor =
     run_schedule exec
       [DiffuseLevelSetSign, UpdateLevelSetGradient, ReinitializeLevelSet, UpdateLevelSetGradient,
        MarkNearInterface, RedistanceInterface, UpdateKernelIntegrals]
       small_shift_factor"

text \<open>The interpretation of a sweep that only records its execution and its parameter.\<close>

definition record_sweep :: "sweep \<Rightarrow> real \<Rightarrow> (sweep \<times> real) list \<Rightarrow> (sweep \<times> real) list" where
  "record_sweep s small_shift_factor trace = trace @ [(s, small_shift_factor)]"

text \<open>
  Modelled from the spec: the body of \<open>LevelSet::upwindDifference\<close> is missing. The spec
  gives its three cases; \<open>Real\<close> is taken as the real numbers.
\<close>

definition upwindDifference :: "real \<Rightarrow> real \<Rightarrow> real \<Rightarrow> real" where
  "upwindDifference sign df_p df_n =
     (if sign * df_p < 0 \<and> sign * df_n < - sign * df_p then df_n
      else if sign * df_n > 0 \<and> sign * df_p > - sign * df_n then df_p
      else 0)"

text \<open>
  Modelled from the spec: the bodies of \<open>LevelSet::probeIsWithinMeshBound\<close> and
  \<open>LevelSet::probeSignedDistance\<close> are missing. The spec gives the first as a
  bounding-box test on \<open>tentative_bounds\<close> and the second as the interpolation of
  \<open>phi\<close> inside the bounds and, outside, a value of infinite magnitude with the far
  sign of the bound. Far cells take their sign from the inside predicate of the shape
  (negative inside the body); the far sign of the bound, for a position outside, is
  read as the far sign at the point of the bounds nearest to the position. The
  interpolation inside the bounds is the parameter \<open>interpolate_phi\<close>.
\<close>

type_synonym Vecd = "real \<times> real \<times> real"
type_synonym BoundingBox = "Vecd \<times> Vecd"

datatype far_sign = Negative | Positive

datatype signed_distance = Finite real | Infinite far_sign

record LevelSet =
  tentative_bounds :: BoundingBox
  isInside :: "Vecd \<Rightarrow> bool"
  interpolate_phi :: "Vecd \<Rightarrow> real"

definition far_field_sign :: "LevelSet \<Rightarrow> Vecd \<Rightarrow> far_sign" where
  "far_field_sign ls p = (if isInside ls p then Negative else Positive)"

fun nearest_in_box :: "BoundingBox \<Rightarrow> Vecd \<Rightarrow> Vecd" where
  "nearest_in_box ((lx, ly, lz), (ux, uy, uz)) (x, y, z) =
     (max lx (min ux x), max ly (min uy y), max lz (min uz z))"

definition bound_far_sign :: "LevelSet \<Rightarrow> Vecd \<Rightarrow> far_sign" where
  "bound_far_sign ls position = far_field_sign ls (nearest_in_box (tentative_bounds ls) position)"

fun within_box :: "BoundingBox \<Rightarrow> Vecd \<Rightarrow> bool" where
  "within_box ((lx, ly, lz), (ux, uy, uz)) (x, y, z) =
     (lx \<le> x \<and> x \<le> ux \<and> ly \<le> y \<and> y \<le> uy \<and> lz \<le> z \<and> z \<le> uz)"

definition probeIsWithinMeshBound :: "LevelSet \<Rightarrow> Vecd \<Rightarrow> bool" where
  "probeIsWithinMeshBound ls position = within_box (tentative_bounds ls) position"

definition probeSignedDistance :: "LevelSet \<Rightarrow> Vecd \<Rightarrow> abort + signed_distance" where
  "probeSignedDistance ls position =
     (if probeIsWithinMeshBound ls position then Inr (Finite (interpolate_phi ls position))
      else Inr (Infinite (bound_far_sign ls position)))"

text \<open>
  The scenario of the spec: the unit sphere centred at the origin, with bounds
  \<open>[-1.5, 1.5]\<^sup>3\<close>; the signed distance of the sphere stands for the interpolation.
\<close>

definition unit_sphere_level_set :: LevelSet where
  "unit_sphere_level_set =
     \<lparr>tentative_bounds = ((-3/2, -3/2, -3/2), (3/2, 3/2, 3/2)),
      isInside = (\<lambda>(x, y, z). x * x + y * y + z * z < 1),
      interpolate_phi = (\<lambda>(x, y, z). sqrt (x * x + y * y + z * z) - 1)\<rparr>"


section \<open>Mesh iterators: mesh_iterators.hpp\<close>

text \<open>
  Cell indices are C++ \<open>int\<close>s. They are modelled as integers, and an addition or an
  increment whose result leaves the range of \<open>int\<close> is undefined behaviour: the run
  has no result (\<open>None\<close>). A run that returns yields the sequence of cells that
  \<open>local_function\<close> was called with, in the order of the calls.
\<close>

type_synonym Array3i = "int \<times> int \<times> int"
type_synonym MeshRange = "Array3i \<times> Array3i"

definition INT_MAX :: int where
  "INT_MAX = 2147483647"

definition INT_MIN :: int where
  "INT_MIN = - 2147483648"

definition int_add :: "int \<Rightarrow> int \<Rightarrow> int option" where
  "int_add a b = (if INT_MIN \<le> a + b \<and> a + b \<le> INT_MAX then Some (a + b) else None)"

text \<open>
  \<open>for (int i = lower; i != upper; ++i) body(i)\<close>: the loop ends only when \<open>i\<close>
  meets \<open>upper\<close>, and \<open>++i\<close> at \<open>INT_MAX\<close> overflows.
\<close>

function for_ne :: "int \<Rightarrow> int \<Rightarrow> (int \<Rightarrow> 'a list option) \<Rightarrow> 'a list option" where
  "for_ne i upper body =
     (if i = upper then Some []
      else case body i of
             None \<Rightarrow> None
           | Some xs \<Rightarrow> (if INT_MAX \<le> i then None
                        else map_option ((@) xs) (for_ne (i + 1) upper body)))"
  by pat_completeness auto
termination
  by (relation "measure (\<lambda>(i, upper, body). nat (INT_MAX - i))") auto

declare for_ne.simps [simp del]

text \<open>
  \<open>for (auto i = start; i < upper; i += step) body(i)\<close>: after a pass, \<open>i += step\<close>
  overflows when the sum exceeds \<open>INT_MAX\<close>; with a step that is not positive the
  loop, once entered, never reaches \<open>upper\<close> (it runs forever for step 0 and down to
  the overflow at \<open>INT_MIN\<close> for a negative step), so it has no result either.
\<close>

function for_lt :: "int \<Rightarrow> int \<Rightarrow> int \<Rightarrow> (int \<Rightarrow> 'a list option) \<Rightarrow> 'a list option" where
  "for_lt i upper step body =
     (if i < upper then
        (case body i of
           None \<Rightarrow> None
         | Some xs \<Rightarrow> (if step \<le> 0 \<or> INT_MAX < i + step then None
                      else map_option ((@) xs) (for_lt (i + step) upper step body)))
      else Some [])"
  by pat_completeness auto
termination
  by (relation "measure (\<lambda>(i, upper, step, body). nat (upper - i))") auto

declare for_lt.simps [simp del]

text \<open>\<open>for (int m = start; m > 0; m--) body(m)\<close>: \<open>m--\<close> of a positive \<open>m\<close> cannot overflow.\<close>

function for_down :: "int \<Rightarrow> (int \<Rightarrow> 'a list option) \<Rightarrow> 'a list option" where
  "for_down m body =
     (if m > 0 then
        (case body m of
           None \<Rightarrow> None
         | Some xs \<Rightarrow> map_option ((@) xs) (for_down (m - 1) body))
      else Some [])"
  by pat_completeness auto
termination
  by (relation "measure (\<lambda>(m, body). nat m)") auto

declare for_down.simps [simp del]

text \<open>The initialiser of a loop variable, \<open>auto i = a + b\<close>, then the loop.\<close>

definition init_then :: "int option \<Rightarrow> (int \<Rightarrow> 'a list option) \<Rightarrow> 'a list option" where
  "init_then start loop = (case start of None \<Rightarrow> None | Some i \<Rightarrow> loop i)"

fun mesh_for :: "MeshRange \<Rightarrow> Array3i list option" where
  "mesh_for ((f0, f1, f2), (s0, s1, s2)) =
     for_ne f0 s0 (\<lambda>i.
       for_ne f1 s1 (\<lambda>j.
         for_ne f2 s2 (\<lambda>k. Some [(i, j, k)])))"

fun mesh_stride_forward_for :: "MeshRange \<Rightarrow> Array3i \<Rightarrow> Array3i list option" where
  "mesh_stride_forward_for ((f0, f1, f2), (s0, s1, s2)) (stride0, stride1, stride2) =
     for_lt 0 stride0 1 (\<lambda>m.
       for_lt 0 stride1 1 (\<lambda>n.
         for_lt 0 stride2 1 (\<lambda>p.
           init_then (int_add f0 m) (\<lambda>i0. for_lt i0 s0 stride0 (\<lambda>i.
             init_then (int_add f1 n) (\<lambda>j0. for_lt j0 s1 stride1 (\<lambda>j.
               init_then (int_add f2 p) (\<lambda>k0. for_lt k0 s2 stride2 (\<lambda>k.
                 Some [(i, j, k)])))))))))"

fun mesh_stride_backward_for :: "MeshRange \<Rightarrow> Array3i \<Rightarrow> Array3i list option" where
  "mesh_stride_backward_for ((f0, f1, f2), (s0, s1, s2)) (stride0, stride1, stride2) =
     for_down stride0 (\<lambda>m.
       for_down stride1 (\<lambda>n.
         for_down stride2 (\<lambda>p.
           init_then (Option.bind (int_add f0 m) (\<lambda>a. int_add a (- 1))) (\<lambda>i0. for_lt i0 s0 stride0 (\<lambda>i.
             init_then (Option.bind (int_add f1 n) (\<lambda>a. int_add a (- 1))) (\<lambda>j0. for_lt j0 s1 stride1 (\<lambda>j.
               init_then (Option.bind (int_add f2 p) (\<lambda>a. int_add a (- 1))) (\<lambda>k0. for_lt k0 s2 stride2 (\<lambda>k.
                 Some [(i, j, k)])))))))))"

text \<open>
  The reading of the partition by stride offset, independent of the loops: the offsets
  in ascending and in descending order, and for one offset the cells of the range whose
  distance from the lower corner is congruent to it, in the order of \<open>mesh_for\<close>.
\<close>

fun offsets_ascending :: "Array3i \<Rightarrow> Array3i list" where
  "offsets_ascending (stride0, stride1, stride2) =
     List.product [0..stride0 - 1] (List.product [0..stride1 - 1] [0..stride2 - 1])"

fun offsets_descending :: "Array3i \<Rightarrow> Array3i list" where
  "offsets_descending (stride0, stride1, stride2) =
     List.product (rev [0..stride0 - 1]) (List.product (rev [0..stride1 - 1]) (rev [0..stride2 - 1]))"

definition axis_at_offset :: "int \<Rightarrow> int \<Rightarrow> int \<Rightarrow> int \<Rightarrow> int list" where
  "axis_at_offset lower upper step m = filter (\<lambda>i. (i - lower) mod step = m) [lower..upper - 1]"

fun cells_at_offset :: "MeshRange \<Rightarrow> Array3i \<Rightarrow> Array3i \<Rightarrow> Array3i list" where
  "cells_at_offset ((f0, f1, f2), (s0, s1, s2)) (stride0, stride1, stride2) (m, n, p) =
     List.product (axis_at_offset f0 s0 stride0 m)
       (List.product (axis_at_offset f1 s1 stride1 n) (axis_at_offset f2 s2 stride2 p))"

fun cells_of_range :: "MeshRange \<Rightarrow> Array3i list" where
  "cells_of_range ((f0, f1, f2), (s0, s1, s2)) =
     List.product [f0..s0 - 1] (List.product [f1..s1 - 1] [f2..s2 - 1])"

fun offset_of :: "MeshRange \<Rightarrow> Array3i \<Rightarrow> Array3i \<Rightarrow> Array3i" where
  "offset_of ((f0, f1, f2), upper) (stride0, stride1, stride2) (i, j, k) =
     ((i - f0) mod stride0, (j - f1) mod stride1, (k - f2) mod stride2)"

text \<open>
  The ranges and strides the loops are meant for, on one axis: the bounds are in order,
  the stride is positive, and the last increment \<open>i += stride\<close>, from below the upper
  bound, stays an \<open>int\<close>.
\<close>

definition axis_ok :: "int \<Rightarrow> int \<Rightarrow> int \<Rightarrow> bool" where
  "axis_ok lower upper step =
     (INT_MIN \<le> lower \<and> lower \<le> upper \<and> 0 < step \<and> step \<le> INT_MAX \<and> upper + step \<le> INT_MAX)"


section \<open>Slender structures: slender_structure_dynamics.cpp\<close>

text \<open>
  The particles of a bar own one array per quantity; only the two the operations below
  differ on are kept. A dynamics object holds C++ references to these arrays, bound in
  its constructor: a reference is the name of the member it is bound to, and reading
  through it reads the particles' current array, whatever was written to it since.
  \<open>operator[]\<close> of the arrays does not check its index; a read outside the array has
  no value.
\<close>

record BarParticles =
  thickness' :: "real list"
  width' :: "real list"

datatype BarParticles_member = member_thickness | member_width

fun deref :: "BarParticles \<Rightarrow> BarParticles_member \<Rightarrow> real list" where
  "deref particles member_thickness = thickness' particles"
| "deref particles member_width = width' particles"

definition read_at :: "'a list \<Rightarrow> nat \<Rightarrow> 'a option" where
  "read_at xs i = (if i < length xs then Some (xs ! i) else None)"

record BarAcousticTimeStepSize =
  CFL' :: real
  acoustic_thickness_ref :: BarParticles_member
  acoustic_width_ref :: BarParticles_member

text \<open>
  The member initialisers of the constructor: \<open>thickness_(particles_->thickness_)\<close> and,
  last, \<open>width_(particles_->thickness_)\<close>.
\<close>

definition BarAcousticTimeStepSize_new :: "real \<Rightarrow> BarAcousticTimeStepSize" where
  "BarAcousticTimeStepSize_new CFL =
     \<lparr>CFL' = CFL, acoustic_thickness_ref = member_thickness, acoustic_width_ref = member_thickness\<rparr>"

definition acoustic_thickness :: "BarAcousticTimeStepSize \<Rightarrow> BarParticles \<Rightarrow> nat \<Rightarrow> real option" where
  "acoustic_thickness obj particles index_i = read_at (deref particles (acoustic_thickness_ref obj)) index_i"

definition acoustic_width :: "BarAcousticTimeStepSize \<Rightarrow> BarParticles \<Rightarrow> nat \<Rightarrow> real option" where
  "acoustic_width obj particles index_i = read_at (deref particles (acoustic_width_ref obj)) index_i"

text \<open>
  \<open>BaseBarRelaxation\<close> binds \<open>thickness_(particles_->thickness_)\<close> and
  \<open>width_(particles_->width_)\<close>. \<open>BarStressRelaxationFirstHalf\<close> derives from it; of its
  own members the smoothing length, the diagonal of the numerical damping scaling
  matrix (initialised to the identity times the smoothing length; the loop writes its
  entries (1,1) and (2,2) only) and the tables of the Gaussian quadrature are kept.
\<close>

record BaseBarRelaxation =
  thickness_ref :: BarParticles_member
  width_ref :: BarParticles_member

record BarStressRelaxationFirstHalf = BaseBarRelaxation +
  smoothing_length' :: real
  numerical_damping_scaling_matrix' :: "real \<times> real \<times> real"
  gaussian_point_x :: "real list"
  gaussian_point_y :: "real list"
  gaussian_weight' :: "real list"
  number_of_gaussian_points' :: int

text \<open>
  The constructor selects the nine-point tables for \<open>number_of_gaussian_points = 9\<close> and
  the four-point tables otherwise. The tables are declared outside this file and are
  parameters: \<open>nine\<close> and \<open>four\<close> are the triples of the x coordinates, the
  y coordinates and the weights.
\<close>

definition BarStressRelaxationFirstHalf_new ::
  "real \<Rightarrow> real list \<times> real list \<times> real list \<Rightarrow> real list \<times> real list \<times> real list \<Rightarrow> int
     \<Rightarrow> BarStressRelaxationFirstHalf" where
  "BarStressRelaxationFirstHalf_new h nine four number_of_gaussian_points =
     (let (xs, ys, ws) = (if number_of_gaussian_points = 9 then nine else four)
      in \<lparr>thickness_ref = member_thickness, width_ref = member_width,
          smoothing_length' = h,
          numerical_damping_scaling_matrix' = (h, h, h),
          gaussian_point_x = xs, gaussian_point_y = ys, gaussian_weight' = ws,
          number_of_gaussian_points' = number_of_gaussian_points\<rparr>)"

text \<open>
  One pass of the loop over the Gaussian points in \<open>initialization(index_i, dt)\<close>, for
  the loop index \<open>i\<close>: the scalars it reads from the arrays and what it makes of them.
  The matrices they multiply (deformation gradients, Cauchy stress) are left out.
  \<^item> \<open>bending_y\<close>, \<open>bending_x\<close>: the factors of \<open>F_bending_\<close> and \<open>F_b_bending_\<close> in
    \<open>F_gaussian_point\<close> (and of their rates in \<open>dF_gaussian_point_dt\<close>);
  \<^item> the entries (1,1) and (2,2) written to \<open>numerical_damping_scaling_matrix_\<close>;
  \<^item> \<open>stress_factor\<close>: the factor of \<open>cauchy_stress\<close> in the resultant stress and shear
    stresses; \<open>moment_factor\<close> and \<open>b_moment_factor\<close>: its factors in the resultant
    moments.
\<close>

record gaussian_point_scalars =
  bending_y :: real
  bending_x :: real
  stress_factor :: real
  moment_factor :: real
  b_moment_factor :: real

definition gaussian_point_pass ::
  "BarStressRelaxationFirstHalf \<Rightarrow> BarParticles \<Rightarrow> nat \<Rightarrow> nat
     \<Rightarrow> (BarStressRelaxationFirstHalf \<times> gaussian_point_scalars) option" where
  "gaussian_point_pass obj particles index_i i =
     (let thickness = deref particles (thickness_ref obj);
          width = deref particles (width_ref obj);
          h = smoothing_length' obj;
          (d00, d11, d22) = numerical_damping_scaling_matrix' obj
      in
        Option.bind (read_at (gaussian_point_y obj) i) (\<lambda>gy.
        Option.bind (read_at (gaussian_point_x obj) i) (\<lambda>gx.
        Option.bind (read_at thickness index_i) (\<lambda>thickness_index_i.
        Option.bind (read_at width index_i) (\<lambda>width_index_i.
        Option.bind (read_at width i) (\<lambda>width_i.
        Option.bind (read_at thickness i) (\<lambda>thickness_i.
        Option.bind (read_at (gaussian_weight' obj) i) (\<lambda>gw.
          Some (obj\<lparr>numerical_damping_scaling_matrix' :=
                      (d00, if width_i < h then width_i else h,
                            if thickness_i < h then thickness_i else h)\<rparr>,
                \<lparr>bending_y = gy * thickness_index_i * 0.5,
                 bending_x = gx * width_index_i * 0.5,
                 stress_factor = 0.5 * width_index_i * 0.5 * thickness_index_i * gw,
                 moment_factor =
                   0.5 * width_index_i * 0.5 * thickness_index_i * gw * (gy * thickness_index_i * 0.5),
                 b_moment_factor =
                   0.5 * width_index_i * 0.5 * thickness_index_i * gw * (gx * width_index_i * 0.5)\<rparr>)))))))))"


text \<open>
  A bar of two particles and a stress relaxation object with four Gaussian points, to
  run one pass of the loop on.
\<close>

definition example_particles :: BarParticles where
  "example_particles = \<lparr>thickness' = [1/10, 4/10], width' = [2/10, 5/10]\<rparr>"

definition example_relaxation :: BarStressRelaxationFirstHalf where
  "example_relaxation =
     BarStressRelaxationFirstHalf_new (3/10) ([], [], [])
       ([1, 2, 3, 4], [5, 6, 7, 8], [1, 1, 1, 1]) 4"

section \<open>Properties of the entities\<close>




text \<open>
  Claim C6, as stated, fails: after \<open>setDeviceData(nullptr)\<close> the device address is
  still refused, since \<open>existDeviceData\<close> tests the pointer and not whether it was set.
\<close>

theorem DeviceDataAddress_after_setDeviceData_nullptr:
  "DeviceDataAddress (setDeviceData (ConstantEntity_new ''gravity'' 1) nullptr)
     = Inl (Exit1 (not_allocated_message ''gravity''))"
  by (simp add: DeviceDataAddress_def setDeviceData_def ConstantEntity_new_def existDeviceData_def)

text \<open>
  Claim C6, amended. Asking a constant entity whose device pointer is null for its
  device address, directly or through \<open>DataAddress\<close> under the parallel device policy,
  exits with a message that contains the name of the entity; this is the case of every
  newly constructed entity. After \<open>setDeviceData\<close> with a pointer that is not null,
  both return that pointer.
\<close>

theorem DeviceDataAddress_exits_on_null_device_pointer:
  "(device_value' e = nullptr \<longrightarrow>
      DeviceDataAddress e = Inl (Exit1 (not_allocated_message (name' e)))
    \<and> DataAddress_policy ParallelDevicePolicy e = Inl (Exit1 (not_allocated_message (name' e))))
  \<and> DeviceDataAddress (ConstantEntity_new nm a) = Inl (Exit1 (not_allocated_message nm))
  \<and> (\<exists>pre post. not_allocated_message nm = pre @ nm @ post)
  \<and> (data \<noteq> nullptr \<longrightarrow>
      DeviceDataAddress (setDeviceData e data) = Inr data
    \<and> DataAddress_policy ParallelDevicePolicy (setDeviceData e data) = Inr data)"
proof -
  have null: "device_value' x = nullptr \<Longrightarrow>
      DeviceDataAddress x = Inl (Exit1 (not_allocated_message (name' x)))" for x
    by (simp add: DeviceDataAddress_def existDeviceData_def)
  have fresh: "DeviceDataAddress (ConstantEntity_new nm a) = Inl (Exit1 (not_allocated_message nm))"
    using null [of "ConstantEntity_new nm a"] by (simp add: ConstantEntity_new_def)
  have names: "\<exists>pre post. not_allocated_message nm = pre @ nm @ post"
    unfolding not_allocated_message_def by (metis append.assoc)
  have set: "data \<noteq> nullptr \<Longrightarrow> DeviceDataAddress (setDeviceData e data) = Inr data"
    by (simp add: DeviceDataAddress_def existDeviceData_def setDeviceData_def)
  show ?thesis using null [of e] fresh names set by simp
qed

theorem DeviceDataAddress_exits_on_null_device_pointer_witness:
  "device_value' (ConstantEntity_new ''gravity'' 1) = nullptr
   \<and> DataAddress_policy ParallelDevicePolicy (ConstantEntity_new ''gravity'' 1)
       = Inl (Exit1 (not_allocated_message ''gravity''))
   \<and> Address 7 \<noteq> nullptr
   \<and> DataAddress_policy ParallelDevicePolicy
        (setDeviceData (ConstantEntity_new ''gravity'' 1) (Address 7)) = Inr (Address 7)"
  using DeviceDataAddress_exits_on_null_device_pointer
    [of "ConstantEntity_new ''gravity'' 1" "''gravity''" 1 "Address 7"]
  by (simp add: ConstantEntity_new_def)

section \<open>Properties of the level set\<close>

text \<open>
  Claim C1. \<open>cleanInterface\<close> executes MarkNearInterface, ReinitializeLevelSet,
  UpdateLevelSetGradient, UpdateKernelIntegrals, in that order and nothing else, and
  \<open>correctTopology\<close> executes DiffuseLevelSetSign, UpdateLevelSetGradient,
  ReinitializeLevelSet, UpdateLevelSetGradient, MarkNearInterface, RedistanceInterface,
  UpdateKernelIntegrals; every sweep receives the \<open>small_shift_factor\<close> of the call.
  This is stated on the record of the executions and on any interpretation \<open>exec\<close> of
  the sweeps.
\<close>

theorem cleanInterface_correctTopology_schedules:
  "cleanInterface record_sweep f trace =
     trace @ [(MarkNearInterface, f), (ReinitializeLevelSet, f), (UpdateLevelSetGradient, f),
              (UpdateKernelIntegrals, f)]
  \<and> correctTopology record_sweep f trace =
     trace @ [(DiffuseLevelSetSign, f), (UpdateLevelSetGradient, f), (ReinitializeLevelSet, f),
              (UpdateLevelSetGradient, f), (MarkNearInterface, f), (RedistanceInterface, f),
              (UpdateKernelIntegrals, f)]
  \<and> cleanInterface exec f mesh =
       exec UpdateKernelIntegrals f (exec UpdateLevelSetGradient f
         (exec ReinitializeLevelSet f (exec MarkNearInterface f mesh)))
  \<and> correctTopology exec f mesh =
       exec UpdateKernelIntegrals f (exec RedistanceInterface f (exec MarkNearInterface f
         (exec UpdateLevelSetGradient f (exec ReinitializeLevelSet f
           (exec UpdateLevelSetGradient f (exec DiffuseLevelSetSign f mesh))))))"
  by (simp add: cleanInterface_def correctTopology_def run_schedule_def record_sweep_def)

text \<open>
  Claim C2. \<open>upwindDifference(sign, df_p, df_n)\<close> is \<open>df_n\<close> when \<open>sign * df_p < 0\<close> and
  \<open>sign * df_n < - sign * df_p\<close>, is \<open>df_p\<close> when \<open>sign * df_n > 0\<close> and
  \<open>sign * df_p > - sign * df_n\<close>, and is 0 in every other case.
\<close>

theorem upwindDifference_cases:
  "(sign * df_p < 0 \<and> sign * df_n < - sign * df_p \<longrightarrow> upwindDifference sign df_p df_n = df_n)
  \<and> (sign * df_n > 0 \<and> sign * df_p > - sign * df_n \<longrightarrow> upwindDifference sign df_p df_n = df_p)
  \<and> (\<not> (sign * df_p < 0 \<and> sign * df_n < - sign * df_p)
      \<and> \<not> (sign * df_n > 0 \<and> sign * df_p > - sign * df_n)
       \<longrightarrow> upwindDifference sign df_p df_n = 0)"
  by (auto simp: upwindDifference_def)

theorem upwindDifference_cases_witness:
  "upwindDifference 1 (-2) 1 = 1 \<and> upwindDifference 1 (-1) 2 = -1 \<and> upwindDifference 1 1 (-1) = 0"
  using upwindDifference_cases [of 1 "-2" 1] upwindDifference_cases [of 1 "-1" 2]
    upwindDifference_cases [of 1 1 "-1"]
  by simp

text \<open>
  Claim C4. A probe at a position outside \<open>tentative_bounds\<close> is not an error: it
  returns the value of infinite magnitude that carries the far sign of the bound, and
  \<open>probeIsWithinMeshBound\<close> is false at exactly the positions outside the bounds. For
  the unit sphere the probe at \<open>(100, 0, 0)\<close> returns the positive infinite value.
\<close>

theorem probe_outside_tentative_bounds:
  "(tentative_bounds ls = ((lx, ly, lz), (ux, uy, uz)) \<and>
      (x < lx \<or> ux < x \<or> y < ly \<or> uy < y \<or> z < lz \<or> uz < z) \<longrightarrow>
        probeSignedDistance ls (x, y, z) = Inr (Infinite (bound_far_sign ls (x, y, z)))
      \<and> \<not> probeIsWithinMeshBound ls (x, y, z))
   \<and> (tentative_bounds ls = ((lx, ly, lz), (ux, uy, uz)) \<longrightarrow>
        (\<not> probeIsWithinMeshBound ls (x, y, z))
          = (x < lx \<or> ux < x \<or> y < ly \<or> uy < y \<or> z < lz \<or> uz < z))
   \<and> probeSignedDistance unit_sphere_level_set (100, 0, 0) = Inr (Infinite Positive)
   \<and> \<not> probeIsWithinMeshBound unit_sphere_level_set (100, 0, 0)"
proof -
  have out: "(\<not> probeIsWithinMeshBound ls (x, y, z))
      = (x < lx \<or> ux < x \<or> y < ly \<or> uy < y \<or> z < lz \<or> uz < z)"
    if "tentative_bounds ls = ((lx, ly, lz), (ux, uy, uz))"
    using that by (auto simp: probeIsWithinMeshBound_def)
  have val: "\<not> probeIsWithinMeshBound l q \<Longrightarrow>
      probeSignedDistance l q = Inr (Infinite (bound_far_sign l q))" for l q
    by (simp add: probeSignedDistance_def)
  have sphere: "\<not> probeIsWithinMeshBound unit_sphere_level_set (100, 0, 0)"
    by (simp add: probeIsWithinMeshBound_def unit_sphere_level_set_def)
  have sign: "bound_far_sign unit_sphere_level_set (100, 0, 0) = Positive"
    by (simp add: bound_far_sign_def far_field_sign_def unit_sphere_level_set_def)
  show ?thesis using out val [of ls "(x, y, z)"] val [OF sphere] sphere sign by auto
qed

theorem probe_outside_tentative_bounds_witness:
  "tentative_bounds unit_sphere_level_set = ((-3/2, -3/2, -3/2), (3/2, 3/2, 3/2))
   \<and> (-2::real) < -3/2
   \<and> probeSignedDistance unit_sphere_level_set (0, -2, 0) = Inr (Infinite Positive)
   \<and> \<not> probeIsWithinMeshBound unit_sphere_level_set (0, -2, 0)"
  using probe_outside_tentative_bounds
    [of unit_sphere_level_set "-3/2" "-3/2" "-3/2" "3/2" "3/2" "3/2" 0 "-2" 0]
  by (simp add: unit_sphere_level_set_def bound_far_sign_def far_field_sign_def)

section \<open>Properties of the slender structure dynamics\<close>

text \<open>
  Claim C10. The constructor of \<open>BarAcousticTimeStepSize\<close> binds \<open>width_\<close> to the
  thickness array of the particles: for every state of the particles and every index,
  what the object reads as width is what it reads as thickness, the entry of the
  particles' thickness array; the particles' width array has no part in it.
\<close>

theorem BarAcousticTimeStepSize_width_is_thickness:
  "acoustic_width_ref (BarAcousticTimeStepSize_new CFL) = member_thickness
  \<and> acoustic_width (BarAcousticTimeStepSize_new CFL) particles index_i
      = read_at (thickness' particles) index_i
  \<and> acoustic_width (BarAcousticTimeStepSize_new CFL) particles index_i
      = acoustic_thickness (BarAcousticTimeStepSize_new CFL) particles index_i
  \<and> acoustic_width (BarAcousticTimeStepSize_new CFL) (particles\<lparr>width' := w\<rparr>) index_i
      = acoustic_width (BarAcousticTimeStepSize_new CFL) particles index_i"
  by (simp add: BarAcousticTimeStepSize_new_def acoustic_width_def acoustic_thickness_def)

text \<open>
  Claim C9. One pass of the loop over the Gaussian points of
  \<open>initialization(index_i, dt)\<close> has a result exactly when \<open>i\<close> is within the three
  quadrature tables and both \<open>i\<close> and \<open>index_i\<close> are within the width and thickness
  arrays. Its result then is this: the entries (1,1) and (2,2) written to the numerical
  damping scaling matrix are the width and the thickness at the loop index \<open>i\<close>,
  each capped by the smoothing length, while the bending terms and the integration
  factors of the same pass use the width and the thickness at the particle index
  \<open>index_i\<close>.
\<close>

theorem damping_scaling_reads_at_loop_index:
  "(let width = deref particles (width_ref obj);
        thickness = deref particles (thickness_ref obj);
        h = smoothing_length' obj
    in (i < length (gaussian_point_y obj) \<and> i < length (gaussian_point_x obj)
          \<and> i < length (gaussian_weight' obj)
          \<and> i < length width \<and> i < length thickness
          \<and> index_i < length width \<and> index_i < length thickness
        \<longrightarrow> gaussian_point_pass obj particles index_i i =
             Some (obj\<lparr>numerical_damping_scaling_matrix' :=
                      (fst (numerical_damping_scaling_matrix' obj),
                       if width ! i < h then width ! i else h,
                       if thickness ! i < h then thickness ! i else h)\<rparr>,
                   \<lparr>bending_y = gaussian_point_y obj ! i * thickness ! index_i * 0.5,
                    bending_x = gaussian_point_x obj ! i * width ! index_i * 0.5,
                    stress_factor =
                      0.5 * width ! index_i * 0.5 * thickness ! index_i * gaussian_weight' obj ! i,
                    moment_factor =
                      0.5 * width ! index_i * 0.5 * thickness ! index_i * gaussian_weight' obj ! i
                        * (gaussian_point_y obj ! i * thickness ! index_i * 0.5),
                    b_moment_factor =
                      0.5 * width ! index_i * 0.5 * thickness ! index_i * gaussian_weight' obj ! i
                        * (gaussian_point_x obj ! i * width ! index_i * 0.5)\<rparr>))
     \<and> (\<not> (i < length (gaussian_point_y obj) \<and> i < length (gaussian_point_x obj)
          \<and> i < length (gaussian_weight' obj)
          \<and> i < length width \<and> i < length thickness
          \<and> index_i < length width \<and> index_i < length thickness)
        \<longrightarrow> gaussian_point_pass obj particles index_i i = None))"
proof -
  obtain d00 d11 d22 where d: "numerical_damping_scaling_matrix' obj = (d00, d11, d22)"
    by (cases "numerical_damping_scaling_matrix' obj") auto
  show ?thesis
    unfolding gaussian_point_pass_def Let_def d
    by (simp add: read_at_def)
qed

lemma example_pass:
  "gaussian_point_pass example_relaxation example_particles 1 0
   = Some (example_relaxation\<lparr>numerical_damping_scaling_matrix' := (3/10, 2/10, 1/10)\<rparr>,
      \<lparr>bending_y = 1, bending_x = 1/4, stress_factor = 1/20, moment_factor = 1/20,
       b_moment_factor = 1/80\<rparr>)"
  by (simp add: gaussian_point_pass_def example_relaxation_def example_particles_def
      BarStressRelaxationFirstHalf_new_def read_at_def Let_def)

text \<open>
  For particle 1 of the example, whose width and thickness are 0.5 and 0.4, the first
  pass writes the width and thickness of particle 0, 0.2 and 0.1, to the matrix; with
  a single particle the second pass has no result.
\<close>

theorem damping_scaling_reads_at_loop_index_witness:
  "(0::nat) < length (gaussian_point_y example_relaxation)
   \<and> 0 < length (gaussian_point_x example_relaxation)
   \<and> 0 < length (gaussian_weight' example_relaxation)
   \<and> 0 < length (width' example_particles) \<and> 0 < length (thickness' example_particles)
   \<and> 1 < length (width' example_particles) \<and> 1 < length (thickness' example_particles)
   \<and> gaussian_point_pass example_relaxation example_particles 1 0
     = Some (example_relaxation\<lparr>numerical_damping_scaling_matrix' :=
               (3/10, width' example_particles ! 0, thickness' example_particles ! 0)\<rparr>,
        \<lparr>bending_y = 1, bending_x = 1/4, stress_factor = 1/20, moment_factor = 1/20,
         b_moment_factor = 1/80\<rparr>)
   \<and> \<not> 1 < length [5/10 :: real]
   \<and> gaussian_point_pass example_relaxation \<lparr>thickness' = [4/10], width' = [5/10]\<rparr> 0 1 = None"
  using damping_scaling_reads_at_loop_index [of example_particles example_relaxation 0 1]
    damping_scaling_reads_at_loop_index
      [of "\<lparr>thickness' = [4/10], width' = [5/10]\<rparr>" example_relaxation 1 0]
  by (simp add: example_relaxation_def example_particles_def
      BarStressRelaxationFirstHalf_new_def Let_def)

text \<open>
  With a single particle the second pass reads \<open>width_[1]\<close>, outside the array.
\<close>

lemma example_pass_out_of_range:
  "gaussian_point_pass example_relaxation \<lparr>thickness' = [4/10], width' = [5/10]\<rparr> 0 1 = None"
  by (simp add: gaussian_point_pass_def example_relaxation_def
      BarStressRelaxationFirstHalf_new_def read_at_def Let_def)

section \<open>Properties of the mesh iterators\<close>

subsection \<open>The loops\<close>

lemma for_ne_None: "upper < i \<Longrightarrow> for_ne i upper body = None"
proof (induction i upper body rule: for_ne.induct)
  case (1 i upper body)
  show ?case
  proof (cases "body i")
    case None
    then show ?thesis using "1.prems" by (simp add: for_ne.simps [of i])
  next
    case (Some xs)
    show ?thesis
    proof (cases "INT_MAX \<le> i")
      case True
      then show ?thesis using Some "1.prems" by (simp add: for_ne.simps [of i])
    next
      case False
      have "for_ne (i + 1) upper body = None"
        using "1.IH" [OF _ Some False] "1.prems" by simp
      then show ?thesis using Some False "1.prems" by (simp add: for_ne.simps [of i])
    qed
  qed
qed

lemma for_ne_pure:
  "i \<le> upper \<Longrightarrow> upper \<le> INT_MAX \<Longrightarrow>
     for_ne i upper (\<lambda>x. Some (g x)) = Some (concat (map g [i..upper - 1]))"
proof (induction i upper "\<lambda>x. Some (g x) :: 'a list option" rule: for_ne.induct)
  case (1 i upper)
  show ?case
  proof (cases "i = upper")
    case True
    then show ?thesis by (subst for_ne.simps) simp
  next
    case False
    then have lt: "i < upper" using "1.prems" by simp
    then have no: "\<not> INT_MAX \<le> i" using "1.prems" by simp
    have "for_ne (i + 1) upper (\<lambda>x. Some (g x)) = Some (concat (map g [i + 1..upper - 1]))"
      using "1.hyps" [OF False refl no] lt "1.prems" by simp
    then show ?thesis
      using False no lt by (subst for_ne.simps) (simp add: upto_rec1 [of i])
  qed
qed

lemma for_ne_Some:
  assumes "i \<le> upper" "upper \<le> INT_MAX" "\<And>x. body x = Some (g x)"
  shows "for_ne i upper body = Some (concat (map g [i..upper - 1]))"
proof -
  have "body = (\<lambda>x. Some (g x))" using assms(3) by auto
  then show ?thesis using for_ne_pure [OF assms(1,2)] by simp
qed

lemma filter_stride_step:
  assumes "0 < step" "i < upper"
  shows "filter (\<lambda>x. (x - i) mod step = 0) [i..upper - 1]
       = i # filter (\<lambda>x. (x - (i + step)) mod step = 0) [i + step..upper - 1]"
proof -
  have "filter (\<lambda>x. (x - i) mod step = 0) [i + 1..upper - 1]
      = filter (\<lambda>x. (x - (i + step)) mod step = 0) [i + step..upper - 1]"
  proof (rule sorted_distinct_set_unique)
    show "set (filter (\<lambda>x. (x - i) mod step = 0) [i + 1..upper - 1])
        = set (filter (\<lambda>x. (x - (i + step)) mod step = 0) [i + step..upper - 1])"
    proof -
      have a: "(x - (i + step)) mod step = (x - i) mod step" for x
        by (metis diff_diff_eq mod_diff_right_eq mod_self diff_zero)
      have b: "i + step \<le> x" if "i + 1 \<le> x" "(x - i) mod step = 0" for x
      proof -
        have "step dvd (x - i)" using that(2) by (simp add: mod_eq_0_iff_dvd)
        moreover have "0 < x - i" using that(1) by simp
        ultimately have "step \<le> x - i" by (rule zdvd_imp_le)
        then show ?thesis by simp
      qed
      show ?thesis using a b assms by auto
    qed
  qed (simp_all add: sorted_wrt_filter)
  then show ?thesis using assms by (simp add: upto_rec1 [of i])
qed


lemma for_lt_Some:
  assumes "0 < step" "upper + step \<le> INT_MAX + 1"
    and "\<And>x. i \<le> x \<Longrightarrow> x < upper \<Longrightarrow> body x = Some (g x)"
  shows "for_lt i upper step body
       = Some (concat (map g (filter (\<lambda>x. (x - i) mod step = 0) [i..upper - 1])))"
  using assms
proof (induction i upper step body rule: for_lt.induct)
  case (1 i upper step body)
  show ?case
  proof (cases "i < upper")
    case True
    have b: "body i = Some (g i)" using "1.prems"(3) True by simp
    have no: "\<not> (step \<le> 0 \<or> INT_MAX < i + step)" using "1.prems"(1,2) True by simp
    have "for_lt (i + step) upper step body
        = Some (concat (map g (filter (\<lambda>x. (x - (i + step)) mod step = 0) [i + step..upper - 1])))"
    proof (rule "1.IH" [OF True b no "1.prems"(1,2)])
      fix x assume "i + step \<le> x" "x < upper"
      then show "body x = Some (g x)" using "1.prems"(1,3) by simp
    qed
    then show ?thesis
      using True b no filter_stride_step [OF "1.prems"(1) True]
      by (subst for_lt.simps) simp
  next
    case False
    then show ?thesis by (subst for_lt.simps) simp
  qed
qed

lemma for_down_Some:
  assumes "\<And>x. 1 \<le> x \<Longrightarrow> x \<le> m \<Longrightarrow> body x = Some (g x)"
  shows "for_down m body = Some (concat (map g (rev [1..m])))"
  using assms
proof (induction m body rule: for_down.induct)
  case (1 m body)
  show ?case
  proof (cases "0 < m")
    case True
    have b: "body m = Some (g m)" using "1.prems" True by simp
    have "for_down (m - 1) body = Some (concat (map g (rev [1..m - 1])))"
    proof (rule "1.IH" [OF True b])
      fix x assume "1 \<le> x" "x \<le> m - 1"
      then show "body x = Some (g x)" using "1.prems" by simp
    qed
    then show ?thesis
      using True b by (subst for_down.simps) (simp add: upto_rec2 [of 1 m])
  next
    case False
    then show ?thesis by (subst for_down.simps) simp
  qed
qed

lemma axis_from_offset:
  assumes "0 \<le> m" "m < step"
  shows "filter (\<lambda>x. (x - (lower + m)) mod step = 0) [lower + m..upper - 1]
       = axis_at_offset lower upper step m"
  unfolding axis_at_offset_def
proof (rule sorted_distinct_set_unique)
  show "set (filter (\<lambda>x. (x - (lower + m)) mod step = 0) [lower + m..upper - 1])
      = set (filter (\<lambda>i. (i - lower) mod step = m) [lower..upper - 1])"
  proof -
    have a: "(x - lower) mod step = m" if "lower + m \<le> x" "(x - (lower + m)) mod step = 0" for x
    proof -
      have "step dvd (x - lower - m)" using that(2) by (simp add: mod_eq_0_iff_dvd diff_diff_eq)
      then obtain k where k: "x - lower - m = step * k" by (auto simp: dvd_def)
      then have "x - lower = m + step * k" by simp
      then show ?thesis using assms by simp
    qed
    have b: "lower + m \<le> x \<and> (x - (lower + m)) mod step = 0" if "lower \<le> x" "(x - lower) mod step = m" for x
    proof -
      have "x - lower = step * ((x - lower) div step) + m" using that(2) by (metis mult_div_mod_eq)
      moreover have "0 \<le> (x - lower) div step" using that(1) assms by (simp add: pos_imp_zdiv_nonneg_iff)
      ultimately have "m \<le> x - lower"
        using assms by (metis add.commute add_increasing2 mult_nonneg_nonneg less_imp_le order_trans order_refl le_add_same_cancel1 add_le_cancel_left)
      moreover have "(x - lower - m) mod step = 0"
        using that(2) by (metis mod_diff_left_eq diff_self mod_0 cancel_comm_monoid_add_class.diff_cancel)
      ultimately show ?thesis by (simp add: diff_diff_eq)
    qed
    show ?thesis using a b assms by auto
  qed
qed (simp_all add: sorted_wrt_filter)

lemma axis_loop_forward:
  assumes "0 < step" "0 \<le> m" "m < step" "INT_MIN \<le> lower" "lower \<le> upper"
    "upper + step \<le> INT_MAX" and "\<And>x. body x = Some (g x)"
  shows "init_then (int_add lower m) (\<lambda>i0. for_lt i0 upper step body)
       = Some (concat (map g (axis_at_offset lower upper step m)))"
proof -
  have "int_add lower m = Some (lower + m)"
    using assms(2-6) by (simp add: int_add_def)
  moreover have "for_lt (lower + m) upper step body
      = Some (concat (map g (filter (\<lambda>x. (x - (lower + m)) mod step = 0) [lower + m..upper - 1])))"
    using assms(1,6,7) by (intro for_lt_Some) simp_all
  ultimately show ?thesis
    using axis_from_offset [OF assms(2,3)] by (simp add: init_then_def)
qed

lemma axis_loop_backward:
  assumes "0 < step" "1 \<le> m" "m \<le> step" "INT_MIN \<le> lower" "lower \<le> upper"
    "upper + step \<le> INT_MAX" and "\<And>x. body x = Some (g x)"
  shows "init_then (Option.bind (int_add lower m) (\<lambda>a. int_add a (- 1)))
           (\<lambda>i0. for_lt i0 upper step body)
       = Some (concat (map g (axis_at_offset lower upper step (m - 1))))"
proof -
  have "Option.bind (int_add lower m) (\<lambda>a. int_add a (- 1)) = Some (lower + (m - 1))"
    using assms(2-6) by (simp add: int_add_def)
  moreover have "for_lt (lower + (m - 1)) upper step body
      = Some (concat (map g (filter (\<lambda>x. (x - (lower + (m - 1))) mod step = 0)
                [lower + (m - 1)..upper - 1])))"
    using assms(1,6,7) by (intro for_lt_Some) simp_all
  ultimately show ?thesis
    using axis_from_offset [of "m - 1" step lower upper] assms(2,3) by (simp add: init_then_def)
qed

lemma concat_nest_product:
  "concat (map (\<lambda>i. concat (map (\<lambda>j. concat (map (\<lambda>k. [(i, j, k)]) zs)) ys)) xs)
     = List.product xs (List.product ys zs)"
  by (simp add: product_concat_map map_concat comp_def)

lemma block_forward:
  assumes "0 < stride0" "0 < stride1" "0 < stride2"
    "0 \<le> m" "m < stride0" "0 \<le> n" "n < stride1" "0 \<le> p" "p < stride2"
    "INT_MIN \<le> f0" "INT_MIN \<le> f1" "INT_MIN \<le> f2"
    "f0 \<le> s0" "f1 \<le> s1" "f2 \<le> s2"
    "s0 + stride0 \<le> INT_MAX" "s1 + stride1 \<le> INT_MAX" "s2 + stride2 \<le> INT_MAX"
  shows "init_then (int_add f0 m) (\<lambda>i0. for_lt i0 s0 stride0 (\<lambda>i.
           init_then (int_add f1 n) (\<lambda>j0. for_lt j0 s1 stride1 (\<lambda>j.
             init_then (int_add f2 p) (\<lambda>k0. for_lt k0 s2 stride2 (\<lambda>k.
               Some [(i, j, k)]))))))
       = Some (cells_at_offset ((f0, f1, f2), (s0, s1, s2)) (stride0, stride1, stride2) (m, n, p))"
proof -
  have k: "init_then (int_add f2 p) (\<lambda>k0. for_lt k0 s2 stride2 (\<lambda>k. Some [(i, j, k)]))
      = Some (concat (map (\<lambda>k. [(i, j, k)]) (axis_at_offset f2 s2 stride2 p)))" for i j
    using assms by (intro axis_loop_forward) simp_all
  have j: "init_then (int_add f1 n) (\<lambda>j0. for_lt j0 s1 stride1 (\<lambda>j.
             init_then (int_add f2 p) (\<lambda>k0. for_lt k0 s2 stride2 (\<lambda>k. Some [(i, j, k)]))))
      = Some (concat (map (\<lambda>j. concat (map (\<lambda>k. [(i, j, k)]) (axis_at_offset f2 s2 stride2 p)))
                (axis_at_offset f1 s1 stride1 n)))" for i
    using assms by (intro axis_loop_forward k) simp_all
  have "init_then (int_add f0 m) (\<lambda>i0. for_lt i0 s0 stride0 (\<lambda>i.
           init_then (int_add f1 n) (\<lambda>j0. for_lt j0 s1 stride1 (\<lambda>j.
             init_then (int_add f2 p) (\<lambda>k0. for_lt k0 s2 stride2 (\<lambda>k.
               Some [(i, j, k)]))))))
      = Some (concat (map (\<lambda>i. concat (map (\<lambda>j. concat (map (\<lambda>k. [(i, j, k)])
                (axis_at_offset f2 s2 stride2 p))) (axis_at_offset f1 s1 stride1 n)))
                (axis_at_offset f0 s0 stride0 m)))"
    using assms by (intro axis_loop_forward j) simp_all
  then show ?thesis by (simp only: concat_nest_product cells_at_offset.simps)
qed

lemma block_backward:
  assumes "0 < stride0" "0 < stride1" "0 < stride2"
    "1 \<le> m" "m \<le> stride0" "1 \<le> n" "n \<le> stride1" "1 \<le> p" "p \<le> stride2"
    "INT_MIN \<le> f0" "INT_MIN \<le> f1" "INT_MIN \<le> f2"
    "f0 \<le> s0" "f1 \<le> s1" "f2 \<le> s2"
    "s0 + stride0 \<le> INT_MAX" "s1 + stride1 \<le> INT_MAX" "s2 + stride2 \<le> INT_MAX"
  shows "init_then (Option.bind (int_add f0 m) (\<lambda>a. int_add a (- 1))) (\<lambda>i0. for_lt i0 s0 stride0 (\<lambda>i.
           init_then (Option.bind (int_add f1 n) (\<lambda>a. int_add a (- 1))) (\<lambda>j0. for_lt j0 s1 stride1 (\<lambda>j.
             init_then (Option.bind (int_add f2 p) (\<lambda>a. int_add a (- 1))) (\<lambda>k0. for_lt k0 s2 stride2 (\<lambda>k.
               Some [(i, j, k)]))))))
       = Some (cells_at_offset ((f0, f1, f2), (s0, s1, s2)) (stride0, stride1, stride2)
                (m - 1, n - 1, p - 1))"
proof -
  have k: "init_then (Option.bind (int_add f2 p) (\<lambda>a. int_add a (- 1)))
             (\<lambda>k0. for_lt k0 s2 stride2 (\<lambda>k. Some [(i, j, k)]))
      = Some (concat (map (\<lambda>k. [(i, j, k)]) (axis_at_offset f2 s2 stride2 (p - 1))))" for i j
    using assms by (intro axis_loop_backward) simp_all
  have j: "init_then (Option.bind (int_add f1 n) (\<lambda>a. int_add a (- 1))) (\<lambda>j0. for_lt j0 s1 stride1 (\<lambda>j.
             init_then (Option.bind (int_add f2 p) (\<lambda>a. int_add a (- 1)))
               (\<lambda>k0. for_lt k0 s2 stride2 (\<lambda>k. Some [(i, j, k)]))))
      = Some (concat (map (\<lambda>j. concat (map (\<lambda>k. [(i, j, k)]) (axis_at_offset f2 s2 stride2 (p - 1))))
                (axis_at_offset f1 s1 stride1 (n - 1))))" for i
    using assms by (intro axis_loop_backward k) simp_all
  have "init_then (Option.bind (int_add f0 m) (\<lambda>a. int_add a (- 1))) (\<lambda>i0. for_lt i0 s0 stride0 (\<lambda>i.
           init_then (Option.bind (int_add f1 n) (\<lambda>a. int_add a (- 1))) (\<lambda>j0. for_lt j0 s1 stride1 (\<lambda>j.
             init_then (Option.bind (int_add f2 p) (\<lambda>a. int_add a (- 1))) (\<lambda>k0. for_lt k0 s2 stride2 (\<lambda>k.
               Some [(i, j, k)]))))))
      = Some (concat (map (\<lambda>i. concat (map (\<lambda>j. concat (map (\<lambda>k. [(i, j, k)])
                (axis_at_offset f2 s2 stride2 (p - 1)))) (axis_at_offset f1 s1 stride1 (n - 1))))
                (axis_at_offset f0 s0 stride0 (m - 1))))"
    using assms by (intro axis_loop_backward j) simp_all
  then show ?thesis by (simp only: concat_nest_product cells_at_offset.simps)
qed

lemma offsets_loop_forward:
  assumes "stride \<le> INT_MAX" "\<And>m. 0 \<le> m \<Longrightarrow> m < stride \<Longrightarrow> body m = Some (g m)"
  shows "for_lt 0 stride 1 body = Some (concat (map g [0..stride - 1]))"
proof -
  have "for_lt 0 stride 1 body
      = Some (concat (map g (filter (\<lambda>x. (x - 0) mod 1 = 0) [0..stride - 1])))"
    using assms by (intro for_lt_Some) simp_all
  then show ?thesis by simp
qed

lemma offsets_loop_backward:
  assumes "\<And>m. 1 \<le> m \<Longrightarrow> m \<le> stride \<Longrightarrow> body m = Some (g (m - 1))"
  shows "for_down stride body = Some (concat (map g (rev [0..stride - 1])))"
proof -
  have "for_down stride body = Some (concat (map (\<lambda>m. g (m - 1)) (rev [1..stride])))"
    using assms by (intro for_down_Some) simp_all
  moreover have "map (\<lambda>m. m - 1) [1..stride] = [0..stride - 1]"
    by (rule nth_equalityI) simp_all
  moreover have "map (\<lambda>m. g (m - 1)) (rev [1..stride])
      = map g (rev (map (\<lambda>m. m - 1) [1..stride]))"
    by (simp add: rev_map comp_def)
  ultimately show ?thesis by simp
qed

lemma concat_map_product:
  "concat (map f (List.product xs ys)) = concat (map (\<lambda>x. concat (map (\<lambda>y. f (x, y)) ys)) xs)"
  by (induction xs) (simp_all add: comp_def)

lemma concat_map_product3:
  "concat (map (\<lambda>m. concat (map (\<lambda>n. concat (map (\<lambda>p. f (m, n, p)) ps)) ns)) ms)
     = concat (map f (List.product ms (List.product ns ps)))"
  by (simp add: concat_map_product)

lemma forward_run:
  assumes "axis_ok f0 s0 stride0" "axis_ok f1 s1 stride1" "axis_ok f2 s2 stride2"
  shows "mesh_stride_forward_for ((f0, f1, f2), (s0, s1, s2)) (stride0, stride1, stride2)
       = Some (concat (map (cells_at_offset ((f0, f1, f2), (s0, s1, s2)) (stride0, stride1, stride2))
                 (offsets_ascending (stride0, stride1, stride2))))"
proof -
  let ?block = "cells_at_offset ((f0, f1, f2), (s0, s1, s2)) (stride0, stride1, stride2)"
  let ?body = "\<lambda>m n p. init_then (int_add f0 m) (\<lambda>i0. for_lt i0 s0 stride0 (\<lambda>i.
           init_then (int_add f1 n) (\<lambda>j0. for_lt j0 s1 stride1 (\<lambda>j.
             init_then (int_add f2 p) (\<lambda>k0. for_lt k0 s2 stride2 (\<lambda>k.
               Some [(i, j, k)]))))))"
  have block: "?body m n p = Some (?block (m, n, p))"
    if "0 \<le> m" "m < stride0" "0 \<le> n" "n < stride1" "0 \<le> p" "p < stride2" for m n p
    using assms that unfolding axis_ok_def by (intro block_forward) simp_all
  have p: "for_lt 0 stride2 1 (\<lambda>p. ?body m n p)
      = Some (concat (map (\<lambda>p. ?block (m, n, p)) [0..stride2 - 1]))"
    if "0 \<le> m" "m < stride0" "0 \<le> n" "n < stride1" for m n
    using assms(3) that unfolding axis_ok_def by (intro offsets_loop_forward block) simp_all
  have n: "for_lt 0 stride1 1 (\<lambda>n. for_lt 0 stride2 1 (\<lambda>p. ?body m n p))
      = Some (concat (map (\<lambda>n. concat (map (\<lambda>p. ?block (m, n, p)) [0..stride2 - 1]))
                [0..stride1 - 1]))"
    if "0 \<le> m" "m < stride0" for m
    using assms(2) that unfolding axis_ok_def by (intro offsets_loop_forward p) simp_all
  have "for_lt 0 stride0 1 (\<lambda>m. for_lt 0 stride1 1 (\<lambda>n. for_lt 0 stride2 1 (\<lambda>p. ?body m n p)))
      = Some (concat (map (\<lambda>m. concat (map (\<lambda>n. concat (map (\<lambda>p. ?block (m, n, p))
                [0..stride2 - 1])) [0..stride1 - 1])) [0..stride0 - 1]))"
    using assms(1) unfolding axis_ok_def by (intro offsets_loop_forward n) simp_all
  then show ?thesis
    by (simp only: mesh_stride_forward_for.simps offsets_ascending.simps concat_map_product3)
qed

lemma backward_run:
  assumes "axis_ok f0 s0 stride0" "axis_ok f1 s1 stride1" "axis_ok f2 s2 stride2"
  shows "mesh_stride_backward_for ((f0, f1, f2), (s0, s1, s2)) (stride0, stride1, stride2)
       = Some (concat (map (cells_at_offset ((f0, f1, f2), (s0, s1, s2)) (stride0, stride1, stride2))
                 (offsets_descending (stride0, stride1, stride2))))"
proof -
  let ?block = "cells_at_offset ((f0, f1, f2), (s0, s1, s2)) (stride0, stride1, stride2)"
  let ?body = "\<lambda>m n p. init_then (Option.bind (int_add f0 m) (\<lambda>a. int_add a (- 1))) (\<lambda>i0. for_lt i0 s0 stride0 (\<lambda>i.
           init_then (Option.bind (int_add f1 n) (\<lambda>a. int_add a (- 1))) (\<lambda>j0. for_lt j0 s1 stride1 (\<lambda>j.
             init_then (Option.bind (int_add f2 p) (\<lambda>a. int_add a (- 1))) (\<lambda>k0. for_lt k0 s2 stride2 (\<lambda>k.
               Some [(i, j, k)]))))))"
  have block: "?body m n p = Some (?block (m - 1, n - 1, p - 1))"
    if "1 \<le> m" "m \<le> stride0" "1 \<le> n" "n \<le> stride1" "1 \<le> p" "p \<le> stride2" for m n p
    using assms that unfolding axis_ok_def by (intro block_backward) simp_all
  have p: "for_down stride2 (\<lambda>p. ?body m n p)
      = Some (concat (map (\<lambda>p. ?block (m - 1, n - 1, p)) (rev [0..stride2 - 1])))"
    if "1 \<le> m" "m \<le> stride0" "1 \<le> n" "n \<le> stride1" for m n
    using that by (intro offsets_loop_backward block) simp_all
  have n: "for_down stride1 (\<lambda>n. for_down stride2 (\<lambda>p. ?body m n p))
      = Some (concat (map (\<lambda>n. concat (map (\<lambda>p. ?block (m - 1, n, p)) (rev [0..stride2 - 1])))
                (rev [0..stride1 - 1])))"
    if "1 \<le> m" "m \<le> stride0" for m
    using that by (intro offsets_loop_backward p) simp_all
  have "for_down stride0 (\<lambda>m. for_down stride1 (\<lambda>n. for_down stride2 (\<lambda>p. ?body m n p)))
      = Some (concat (map (\<lambda>m. concat (map (\<lambda>n. concat (map (\<lambda>p. ?block (m, n, p))
                (rev [0..stride2 - 1]))) (rev [0..stride1 - 1]))) (rev [0..stride0 - 1])))"
    by (intro offsets_loop_backward n) simp_all
  then show ?thesis
    by (simp only: mesh_stride_backward_for.simps offsets_descending.simps concat_map_product3)
qed

lemma plain_run:
  assumes "f0 \<le> s0" "s0 \<le> INT_MAX" "f1 \<le> s1" "s1 \<le> INT_MAX" "f2 \<le> s2" "s2 \<le> INT_MAX"
  shows "mesh_for ((f0, f1, f2), (s0, s1, s2)) = Some (cells_of_range ((f0, f1, f2), (s0, s1, s2)))"
proof -
  have k: "for_ne f2 s2 (\<lambda>k. Some [(i, j, k)]) = Some (concat (map (\<lambda>k. [(i, j, k)]) [f2..s2 - 1]))"
    for i j
    using assms by (intro for_ne_Some) simp_all
  have j: "for_ne f1 s1 (\<lambda>j. for_ne f2 s2 (\<lambda>k. Some [(i, j, k)]))
      = Some (concat (map (\<lambda>j. concat (map (\<lambda>k. [(i, j, k)]) [f2..s2 - 1])) [f1..s1 - 1]))" for i
    using assms by (intro for_ne_Some k) simp_all
  have "for_ne f0 s0 (\<lambda>i. for_ne f1 s1 (\<lambda>j. for_ne f2 s2 (\<lambda>k. Some [(i, j, k)])))
      = Some (concat (map (\<lambda>i. concat (map (\<lambda>j. concat (map (\<lambda>k. [(i, j, k)]) [f2..s2 - 1]))
                [f1..s1 - 1])) [f0..s0 - 1]))"
    using assms by (intro for_ne_Some j) simp_all
  then show ?thesis by (simp only: mesh_for.simps cells_of_range.simps concat_nest_product)
qed

lemma offset_of_cells_at_offset:
  assumes "c \<in> set (cells_at_offset ((f0, f1, f2), (s0, s1, s2)) (stride0, stride1, stride2) off)"
  shows "offset_of ((f0, f1, f2), (s0, s1, s2)) (stride0, stride1, stride2) c = off"
proof -
  obtain m n p where off: "off = (m, n, p)" by (cases off) auto
  obtain i j k where c: "c = (i, j, k)" by (cases c) auto
  show ?thesis using assms unfolding off c by (simp add: axis_at_offset_def)
qed

lemma distinct_cells_at_offset:
  "distinct (cells_at_offset ((f0, f1, f2), (s0, s1, s2)) (stride0, stride1, stride2) off)"
proof -
  obtain m n p where off: "off = (m, n, p)" by (cases off) auto
  show ?thesis unfolding off by (simp add: axis_at_offset_def distinct_product)
qed

lemma distinct_concat_keyed:
  assumes "distinct offs" "\<And>off. off \<in> set offs \<Longrightarrow> distinct (block off)"
    "\<And>off c. off \<in> set offs \<Longrightarrow> c \<in> set (block off) \<Longrightarrow> key c = off"
  shows "distinct (concat (map block offs))"
  using assms
proof (induction offs)
  case Nil
  then show ?case by simp
next
  case (Cons off offs)
  have "distinct (concat (map block offs))"
    using Cons.prems by (intro Cons.IH) auto
  moreover have "distinct (block off)" using Cons.prems(2) by simp
  moreover have "set (block off) \<inter> set (concat (map block offs)) = {}"
  proof (rule ccontr)
    assume "set (block off) \<inter> set (concat (map block offs)) \<noteq> {}"
    then obtain c off' where "c \<in> set (block off)" "off' \<in> set offs" "c \<in> set (block off')"
      by auto
    then have "off = off'" using Cons.prems(3) [of off c] Cons.prems(3) [of off' c] by simp
    then show False using Cons.prems(1) \<open>off' \<in> set offs\<close> by simp
  qed
  ultimately show ?case by simp
qed

lemma set_blocks:
  assumes "0 < stride0" "0 < stride1" "0 < stride2"
  shows "(\<Union>off \<in> set (offsets_ascending (stride0, stride1, stride2)).
            set (cells_at_offset ((f0, f1, f2), (s0, s1, s2)) (stride0, stride1, stride2) off))
       = set (cells_of_range ((f0, f1, f2), (s0, s1, s2)))"
proof -
  have bound: "0 \<le> x mod st \<and> x mod st \<le> st - 1" if "0 < st" for x st :: int
    using that by (simp add: zle_diff1_eq)
  show ?thesis
    using assms bound [of stride0] bound [of stride1] bound [of stride2]
    by (auto simp: axis_at_offset_def)
qed

lemma set_offsets_descending:
  "set (offsets_descending stride) = set (offsets_ascending stride)"
  by (cases stride) auto

lemma distinct_offsets:
  "distinct (offsets_ascending stride)" "distinct (offsets_descending stride)"
  by (cases stride; simp add: distinct_product)+

lemma distinct_cells_of_range: "distinct (cells_of_range mesh_range)"
  by (cases mesh_range rule: cells_of_range.cases) (simp add: distinct_product)

subsection \<open>The runs on an example\<close>

lemma example_forward_run:
  "mesh_stride_forward_for ((0, 0, 0), (3, 2, 1)) (2, 2, 1)
   = Some [(0, 0, 0), (2, 0, 0), (0, 1, 0), (2, 1, 0), (1, 0, 0), (1, 1, 0)]"
  by (simp add: for_lt.simps int_add_def init_then_def INT_MAX_def INT_MIN_def)

lemma example_backward_run:
  "mesh_stride_backward_for ((0, 0, 0), (3, 2, 1)) (2, 2, 1)
   = Some [(1, 1, 0), (1, 0, 0), (0, 1, 0), (2, 1, 0), (0, 0, 0), (2, 0, 0)]"
  by (simp add: for_lt.simps for_down.simps int_add_def init_then_def INT_MAX_def INT_MIN_def)

lemma example_plain_run:
  "mesh_for ((0, 0, 0), (3, 2, 1))
   = Some [(0, 0, 0), (0, 1, 0), (1, 0, 0), (1, 1, 0), (2, 0, 0), (2, 1, 0)]"
  by (simp add: for_ne.simps INT_MAX_def)

text \<open>
  Next to the upper end of \<open>int\<close> the increment by the stride overflows although
  \<open>mesh_for\<close> runs through.
\<close>

lemma mesh_stride_forward_for_overflow:
  "mesh_for ((2147483646, 0, 0), (2147483647, 1, 1)) = Some [(2147483646, 0, 0)]
  \<and> mesh_stride_forward_for ((2147483646, 0, 0), (2147483647, 1, 1)) (2, 1, 1) = None"
  by (simp add: for_ne.simps for_lt.simps int_add_def init_then_def INT_MAX_def INT_MIN_def)

subsection \<open>Strided iteration against plain iteration\<close>

text \<open>
  Claim C7, as stated, fails: on a range whose lower bound lies above its upper bound
  on the first axis, the strided iterations return without a call, while \<open>mesh_for\<close>,
  whose loops test \<open>i != upper\<close>, calls the local function for cell after cell until
  the increment leaves the range of \<open>int\<close>.
\<close>

theorem mesh_for_differs_on_inverted_range:
  "mesh_for ((1, 0, 0), (0, 1, 1)) = None
  \<and> mesh_stride_forward_for ((1, 0, 0), (0, 1, 1)) (1, 1, 1) = Some []
  \<and> mesh_stride_backward_for ((1, 0, 0), (0, 1, 1)) (1, 1, 1) = Some []"
  by (simp add: for_ne_None for_lt.simps for_down.simps int_add_def init_then_def
      INT_MAX_def INT_MIN_def)

text \<open>
  Claim C7, amended. For every mesh range whose bounds are in order on each axis and
  every positive stride vector, with the upper bound plus the stride within \<open>int\<close> on
  each axis, \<open>mesh_for\<close>, \<open>mesh_stride_forward_for\<close> and \<open>mesh_stride_backward_for\<close>
  all return; the two strided runs call the local function on exactly the cells
  \<open>mesh_for\<close> calls it on, each cell once; the forward run is the sequence of the
  blocks of the offsets \<open>(m, n, p)\<close> in ascending order and the backward run the
  sequence of the same blocks in descending order, where the block of an offset holds
  the cells at that offset from the lower corner modulo the stride and no others.
\<close>

theorem strided_for_visits_cells_of_mesh_for:
  assumes "axis_ok f0 s0 stride0" "axis_ok f1 s1 stride1" "axis_ok f2 s2 stride2"
    and "mesh_range = ((f0, f1, f2), (s0, s1, s2))" and "stride = (stride0, stride1, stride2)"
  shows "\<exists>plain forward backward.
      mesh_for mesh_range = Some plain
    \<and> mesh_stride_forward_for mesh_range stride = Some forward
    \<and> mesh_stride_backward_for mesh_range stride = Some backward
    \<and> mset forward = mset plain \<and> mset backward = mset plain
    \<and> distinct plain \<and> distinct forward \<and> distinct backward
    \<and> forward = concat (map (cells_at_offset mesh_range stride) (offsets_ascending stride))
    \<and> backward = concat (map (cells_at_offset mesh_range stride) (offsets_descending stride))
    \<and> (\<forall>off c. c \<in> set (cells_at_offset mesh_range stride off)
          \<longrightarrow> offset_of mesh_range stride c = off)"
proof -
  let ?block = "cells_at_offset mesh_range stride"
  let ?plain = "cells_of_range mesh_range"
  let ?forward = "concat (map ?block (offsets_ascending stride))"
  let ?backward = "concat (map ?block (offsets_descending stride))"
  have pos: "0 < stride0" "0 < stride1" "0 < stride2"
    using assms(1-3) by (simp_all add: axis_ok_def)
  have plain: "mesh_for mesh_range = Some ?plain"
    unfolding assms(4) using assms(1-3) pos
    by (intro plain_run) (simp_all add: axis_ok_def)
  have forward: "mesh_stride_forward_for mesh_range stride = Some ?forward"
    unfolding assms(4,5) by (rule forward_run [OF assms(1-3)])
  have backward: "mesh_stride_backward_for mesh_range stride = Some ?backward"
    unfolding assms(4,5) by (rule backward_run [OF assms(1-3)])
  have key: "offset_of mesh_range stride c = off" if "c \<in> set (?block off)" for off c
    using that unfolding assms(4,5) by (rule offset_of_cells_at_offset)
  have d_plain: "distinct ?plain" by (rule distinct_cells_of_range)
  have d_block: "distinct (?block off)" for off
    unfolding assms(4,5) by (rule distinct_cells_at_offset)
  have d_forward: "distinct ?forward"
    by (rule distinct_concat_keyed [where key = "offset_of mesh_range stride"])
      (simp_all add: distinct_offsets d_block key)
  have d_backward: "distinct ?backward"
    by (rule distinct_concat_keyed [where key = "offset_of mesh_range stride"])
      (simp_all add: distinct_offsets d_block key)
  have s_forward: "set ?forward = set ?plain"
    using set_blocks [OF pos, of f0 f1 f2 s0 s1 s2] unfolding assms(4,5) by simp
  have s_backward: "set ?backward = set ?plain"
    using s_forward by (simp add: set_offsets_descending)
  have m_forward: "mset ?forward = mset ?plain"
    using set_eq_iff_mset_eq_distinct [OF d_forward d_plain] s_forward by blast
  have m_backward: "mset ?backward = mset ?plain"
    using set_eq_iff_mset_eq_distinct [OF d_backward d_plain] s_backward by blast
  show ?thesis
    using plain forward backward m_forward m_backward d_plain d_forward d_backward key by blast
qed

theorem strided_for_visits_cells_of_mesh_for_witness:
  "axis_ok 0 3 2 \<and> axis_ok 0 2 2 \<and> axis_ok 0 1 1
   \<and> mesh_for ((0, 0, 0), (3, 2, 1))
       = Some [(0, 0, 0), (0, 1, 0), (1, 0, 0), (1, 1, 0), (2, 0, 0), (2, 1, 0)]
   \<and> mesh_stride_forward_for ((0, 0, 0), (3, 2, 1)) (2, 2, 1)
       = Some [(0, 0, 0), (2, 0, 0), (0, 1, 0), (2, 1, 0), (1, 0, 0), (1, 1, 0)]
   \<and> mesh_stride_backward_for ((0, 0, 0), (3, 2, 1)) (2, 2, 1)
       = Some [(1, 1, 0), (1, 0, 0), (0, 1, 0), (2, 1, 0), (0, 0, 0), (2, 0, 0)]
   \<and> mset ([(0, 0, 0), (2, 0, 0), (0, 1, 0), (2, 1, 0), (1, 0, 0), (1, 1, 0)] :: Array3i list)
       = mset [(0, 0, 0), (0, 1, 0), (1, 0, 0), (1, 1, 0), (2, 0, 0), (2, 1, 0)]
   \<and> mset ([(1, 1, 0), (1, 0, 0), (0, 1, 0), (2, 1, 0), (0, 0, 0), (2, 0, 0)] :: Array3i list)
       = mset [(0, 0, 0), (0, 1, 0), (1, 0, 0), (1, 1, 0), (2, 0, 0), (2, 1, 0)]"
proof -
  have ok: "axis_ok 0 3 2" "axis_ok 0 2 2" "axis_ok 0 1 1"
    by (simp_all add: axis_ok_def INT_MIN_def INT_MAX_def)
  from strided_for_visits_cells_of_mesh_for [OF ok refl refl]
  obtain plain forward backward where
    "mesh_for ((0, 0, 0), (3, 2, 1)) = Some plain"
    "mesh_stride_forward_for ((0, 0, 0), (3, 2, 1)) (2, 2, 1) = Some forward"
    "mesh_stride_backward_for ((0, 0, 0), (3, 2, 1)) (2, 2, 1) = Some backward"
    "mset forward = mset plain" "mset backward = mset plain"
    by blast
  then show ?thesis
    using ok example_plain_run example_forward_run example_backward_run by simp
qed

end
